theory Spec2Isabelle
  imports Complex_Main
begin

section \<open>Post-processing volumes: the controller of post-processing.py\<close>

text \<open>
  The script registers one object, a \<open>PostProcessingController\<close>, whose method
  \<open>loop\<close> the host calls once per frame. Everything the host provides (the camera,
  the tagged scene nodes, the metadata sets) is data of the model: the camera is a
  record of the three values the script reads, a scene node is a record of its object
  identity, its name and its bounding box, a metadata set is a finite table from keys
  to numbers. Python's floats are modelled by the real numbers: comparison and
  arithmetic are exact, rounding is not modelled.
\<close>

subsection \<open>Host data\<close>

record vec3 =
  vx :: real
  vy :: real
  vz :: real

record bbox =
  bbMin :: vec3
  bbMax :: vec3

text \<open>
  A \<open>vrdNode\<close>. Two node values are compared by \<open>!=\<close> in \<open>loop\<close>; the model
  compares the records, which carry the host's object identity.
\<close>

record volume =
  objectId :: nat
  nodeName :: string
  boundingBox :: bbox

record camera =
  worldTranslation :: vec3
  tonemapperExposure :: real
  colorCorrectionSaturation :: real

text \<open>
  A value that the script stores in a target attribute: a number, or Python's \<open>None\<close>,
  which is what a metadata set gives for a key it does not hold.
\<close>

datatype pyval = Num real | PyNone

type_synonym metadataSet = "string \<rightharpoonup> real"

definition getValue :: "metadataSet \<Rightarrow> string \<Rightarrow> pyval" where
  "getValue effect key = (case effect key of Some v \<Rightarrow> Num v | None \<Rightarrow> PyNone)"

datatype error = TypeError

subsection \<open>The controller object\<close>

text \<open>
  The attributes of \<open>PostProcessingController\<close>, the host's activity flag of
  \<open>vrAEBase\<close>, and the lines printed so far. \<open>originalCameraParameters\<close> is a
  dictionary with the two fixed keys \<open>exposure\<close> and \<open>saturation\<close>.
\<close>

record cameraParameters =
  exposure :: real
  saturation :: real

record controller =
  camera :: camera
  postProcessingVolumes :: "volume list"
  postProcessingEffectMapping :: "string \<rightharpoonup> metadataSet"
  originalCameraParameters :: cameraParameters
  exposureTarget :: pyval
  saturationTarget :: pyval
  lastActiveProcessingVolume :: "volume option"
  isActive :: bool
  stdout :: "string list"

text \<open>
  \<open>__init__\<close>, given what the host's queries return: the active camera, the tagged
  nodes and the name-to-set dictionary.
\<close>

definition init :: "camera \<Rightarrow> volume list \<Rightarrow> (string \<rightharpoonup> metadataSet) \<Rightarrow> controller" where
  "init cam vols mapping =
     \<lparr> camera = cam,
       postProcessingVolumes = vols,
       postProcessingEffectMapping = mapping,
       originalCameraParameters =
         \<lparr> exposure = tonemapperExposure cam, saturation = colorCorrectionSaturation cam \<rparr>,
       exposureTarget = Num (tonemapperExposure cam),
       saturationTarget = Num (colorCorrectionSaturation cam),
       lastActiveProcessingVolume = None,
       isActive = True,
       stdout = [] \<rparr>"

subsection \<open>Containment\<close>

definition isCameraInsideBoundingBox :: "camera \<Rightarrow> volume \<Rightarrow> bool" where
  "isCameraInsideBoundingBox cam vol =
     (let cameraPosition = worldTranslation cam;
          bb = boundingBox vol;
          mn = bbMin bb;
          mx = bbMax bb;
          isInsideX = (vx mn < vx cameraPosition \<and> vx cameraPosition < vx mx);
          isInsideY = (vy mn < vy cameraPosition \<and> vy cameraPosition < vy mx);
          isInsideZ = (vz mn < vz cameraPosition \<and> vz cameraPosition < vz mx)
      in isInsideX \<and> isInsideY \<and> isInsideZ)"

text \<open>
  The \<open>for\<close> loop of \<open>loop\<close> over the registered volumes: the third argument is
  the variable \<open>activeProcessingVolume\<close>, overwritten at every volume that contains
  the camera.
\<close>

fun scanVolumes :: "camera \<Rightarrow> volume list \<Rightarrow> volume option \<Rightarrow> volume option" where
  "scanVolumes cam [] activeProcessingVolume = activeProcessingVolume"
| "scanVolumes cam (postProcessingVolume # rest) activeProcessingVolume =
     scanVolumes cam rest
       (if isCameraInsideBoundingBox cam postProcessingVolume
        then Some postProcessingVolume else activeProcessingVolume)"

subsection \<open>Targets\<close>

definition setPostProcessingEffects :: "controller \<Rightarrow> volume \<Rightarrow> controller" where
  "setPostProcessingEffects s postProcessingVolume =
     (let s1 = s\<lparr>stdout := stdout s @
                  [''Camera entered post processing volume: '' @ nodeName postProcessingVolume]\<rparr>
      in case postProcessingEffectMapping s1 (nodeName postProcessingVolume) of
           None \<Rightarrow> s1
         | Some effect \<Rightarrow>
             s1\<lparr>exposureTarget := getValue effect ''camera:exposure'',
                saturationTarget := getValue effect ''camera:saturation''\<rparr>)"

definition resetPostProcessingEffects :: "controller \<Rightarrow> controller" where
  "resetPostProcessingEffects s =
     s\<lparr>stdout := stdout s @ [''Camera left post processing volume''],
       exposureTarget := Num (exposure (originalCameraParameters s)),
       saturationTarget := Num (saturation (originalCameraParameters s))\<rparr>"

subsection \<open>The blend step\<close>

text \<open>
  A call either returns the updated object (\<open>Inr\<close>) or raises (\<open>Inl\<close>); the object
  is given with the error as it stands when the exception leaves the method. Both
  differences are computed before the first setter is called, so a target that is not
  a number raises \<open>TypeError\<close> with the camera untouched.
\<close>

type_synonym outcome = "(error \<times> controller) + controller"

definition smoothCameraParameterUpdate :: "controller \<Rightarrow> outcome" where
  "smoothCameraParameterUpdate s =
     (let currentExposure = tonemapperExposure (camera s);
          currentSaturation = colorCorrectionSaturation (camera s)
      in case exposureTarget s of
           PyNone \<Rightarrow> Inl (TypeError, s)
         | Num exposureT \<Rightarrow>
            (case saturationTarget s of
               PyNone \<Rightarrow> Inl (TypeError, s)
             | Num saturationT \<Rightarrow>
                (let diffExposure = \<bar>exposureT - currentExposure\<bar>;
                     diffSaturation = \<bar>saturationT - currentSaturation\<bar>;
                     cam1 = (if diffExposure > 0.1
                             then (camera s)\<lparr>tonemapperExposure :=
                                    currentExposure + (exposureT - currentExposure) * 0.1\<rparr>
                             else camera s);
                     cam2 = (if diffSaturation > 0.1
                             then cam1\<lparr>colorCorrectionSaturation :=
                                    currentSaturation + (saturationT - currentSaturation) * 0.1\<rparr>
                             else cam1)
                 in Inr (s\<lparr>camera := cam2\<rparr>))))"

subsection \<open>The frame callback\<close>

definition loop :: "controller \<Rightarrow> outcome" where
  "loop s =
     smoothCameraParameterUpdate
       (if isActive s = True then
          (let activeProcessingVolume =
                 scanVolumes (camera s) (postProcessingVolumes s) None;
               s1 = (if lastActiveProcessingVolume s \<noteq> activeProcessingVolume then
                       (case activeProcessingVolume of
                          Some v \<Rightarrow> setPostProcessingEffects s v
                        | None \<Rightarrow> resetPostProcessingEffects s)
                     else s)
           in s1\<lparr>lastActiveProcessingVolume := activeProcessingVolume\<rparr>)
        else s)"

text \<open>The object after a call, whether the call returned or raised.\<close>

fun objectAfter :: "outcome \<Rightarrow> controller" where
  "objectAfter (Inl (e, s)) = s"
| "objectAfter (Inr s) = s"

text \<open>
  Between two frames the host moves the camera; a run over a path of camera positions
  calls \<open>loop\<close> once per position and ends at the first exception.
\<close>

definition moveCamera :: "vec3 \<Rightarrow> controller \<Rightarrow> controller" where
  "moveCamera p s = s\<lparr>camera := (camera s)\<lparr>worldTranslation := p\<rparr>\<rparr>"





text \<open>Repeated blend steps with nothing else in between.\<close>

fun blendSteps :: "nat \<Rightarrow> controller \<Rightarrow> outcome" where
  "blendSteps 0 s = Inr s"
| "blendSteps (Suc n) s =
     (case smoothCameraParameterUpdate s of
        Inl e \<Rightarrow> Inl e
      | Inr s' \<Rightarrow> blendSteps n s')"

text \<open>The camera's exposure after \<open>n\<close> blend steps, if none of them raised.\<close>

definition exposureAfter :: "nat \<Rightarrow> controller \<Rightarrow> real option" where
  "exposureAfter n s =
     (case blendSteps n s of
        Inl e \<Rightarrow> None
      | Inr s' \<Rightarrow> Some (tonemapperExposure (camera s')))"

subsection \<open>The specification's blend rule\<close>

text \<open>
  The rule as the specification words it, for one parameter: with
  \<open>diff = abs(target - current)\<close>, the new value is
  \<open>current + (target - current) * ALPHA\<close> if \<open>diff > EPSILON\<close> and \<open>current\<close>
  otherwise.
\<close>

definition ALPHA :: real where
  "ALPHA = 0.1"

definition EPSILON :: real where
  "EPSILON = 0.1"

definition specStep :: "real \<Rightarrow> real \<Rightarrow> real" where
  "specStep target current =
     (let diff = \<bar>target - current\<bar>
      in if diff > EPSILON then current + (target - current) * ALPHA else current)"

text \<open>
  The specification's active volume: the last volume, in registration order, whose box
  contains the camera position.
\<close>

definition lastContaining :: "camera \<Rightarrow> volume list \<Rightarrow> volume option" where
  "lastContaining cam vols =
     (case rev (filter (isCameraInsideBoundingBox cam) vols) of
        [] \<Rightarrow> None
      | v # _ \<Rightarrow> Some v)"

subsection \<open>A small scene\<close>

text \<open>
  Concrete host data on which the theorems below are exercised: boxes of which
  \<open>volA\<close> and \<open>volB\<close> overlap and the others lie apart, a volume \<open>volD\<close> that
  no metadata set is attached to, and a volume \<open>volE\<close> whose metadata set holds the
  exposure key only.
\<close>

definition pt :: "real \<Rightarrow> real \<Rightarrow> real \<Rightarrow> vec3" where
  "pt a b c = \<lparr> vx = a, vy = b, vz = c \<rparr>"

definition cube :: "real \<Rightarrow> real \<Rightarrow> bbox" where
  "cube lo hi = \<lparr> bbMin = pt lo lo lo, bbMax = pt hi hi hi \<rparr>"

definition volA :: volume where
  "volA = \<lparr> objectId = 1, nodeName = ''A'', boundingBox = cube 0 4 \<rparr>"

definition volB :: volume where
  "volB = \<lparr> objectId = 2, nodeName = ''B'', boundingBox = cube 2 6 \<rparr>"

definition volC :: volume where
  "volC = \<lparr> objectId = 3, nodeName = ''C'', boundingBox = cube 10 12 \<rparr>"

definition volD :: volume where
  "volD = \<lparr> objectId = 4, nodeName = ''D'', boundingBox = cube 20 22 \<rparr>"

definition volE :: volume where
  "volE = \<lparr> objectId = 5, nodeName = ''E'', boundingBox = cube 30 32 \<rparr>"

definition camAt :: "vec3 \<Rightarrow> camera" where
  "camAt p = \<lparr> worldTranslation = p, tonemapperExposure = 1, colorCorrectionSaturation = 1 \<rparr>"

definition effectA :: metadataSet where
  "effectA = [''camera:exposure'' \<mapsto> 2, ''camera:saturation'' \<mapsto> 3]"

definition effectB :: metadataSet where
  "effectB = [''camera:exposure'' \<mapsto> 6, ''camera:saturation'' \<mapsto> 7]"

definition effectC :: metadataSet where
  "effectC = [''camera:exposure'' \<mapsto> 4, ''camera:saturation'' \<mapsto> 5]"

definition effectExposureOnly :: metadataSet where
  "effectExposureOnly = [''camera:exposure'' \<mapsto> 2]"

definition sceneMapping :: "string \<rightharpoonup> metadataSet" where
  "sceneMapping =
     [''A'' \<mapsto> effectA, ''B'' \<mapsto> effectB, ''C'' \<mapsto> effectC, ''E'' \<mapsto> effectExposureOnly]"

text \<open>
  The controller as \<open>__init__\<close> leaves it, over the five volumes, with the camera at
  a given position; exposure and saturation start at 1.
\<close>

definition sceneAt :: "vec3 \<Rightarrow> controller" where
  "sceneAt p = init (camAt p) [volA, volB, volC, volD, volE] sceneMapping"


text \<open>
  Two controllers in mid-blend: \<open>blendScene\<close> with the exposure target one unit away
  and the saturation target within the threshold, and \<open>rampScene\<close> with the exposure
  at 0 and its target at 10.
\<close>

definition blendScene :: controller where
  "blendScene = (init (camAt (pt 1 1 1)) [volA] sceneMapping)
     \<lparr>exposureTarget := Num 2, saturationTarget := Num 1.05\<rparr>"

definition rampScene :: controller where
  "rampScene =
     init \<lparr> worldTranslation = pt 0 0 0, tonemapperExposure = 0, colorCorrectionSaturation = 1 \<rparr>
       [] Map.empty
     \<lparr>exposureTarget := Num 10\<rparr>"

section \<open>Containment and the active volume\<close>

lemma inside_iff:
  "isCameraInsideBoundingBox cam vol \<longleftrightarrow>
     vx (bbMin (boundingBox vol)) < vx (worldTranslation cam) \<and>
     vx (worldTranslation cam) < vx (bbMax (boundingBox vol)) \<and>
     vy (bbMin (boundingBox vol)) < vy (worldTranslation cam) \<and>
     vy (worldTranslation cam) < vy (bbMax (boundingBox vol)) \<and>
     vz (bbMin (boundingBox vol)) < vz (worldTranslation cam) \<and>
     vz (worldTranslation cam) < vz (bbMax (boundingBox vol))"
  by (auto simp: isCameraInsideBoundingBox_def Let_def)

lemma scanVolumes_acc:
  "scanVolumes cam vols acc =
     (case rev (filter (isCameraInsideBoundingBox cam) vols) of
        [] \<Rightarrow> acc
      | v # _ \<Rightarrow> Some v)"
proof (induction vols arbitrary: acc)
  case Nil
  show ?case by simp
next
  case (Cons w ws)
  show ?case
    by (cases "rev (filter (isCameraInsideBoundingBox cam) ws)")
       (simp_all add: Cons.IH)
qed

lemma scanVolumes_last: "scanVolumes cam vols None = lastContaining cam vols"
  by (simp add: scanVolumes_acc lastContaining_def)

text \<open>
  C2. The containment test is true exactly when, on each of the three axes, the camera
  coordinate lies strictly between the box's minimum and maximum; a camera whose
  coordinate equals a bound on some axis (a point on a face) is not inside.
\<close>

theorem C2_contains_strict:
  "(isCameraInsideBoundingBox cam vol \<longleftrightarrow>
      vx (bbMin (boundingBox vol)) < vx (worldTranslation cam) \<and>
      vx (worldTranslation cam) < vx (bbMax (boundingBox vol)) \<and>
      vy (bbMin (boundingBox vol)) < vy (worldTranslation cam) \<and>
      vy (worldTranslation cam) < vy (bbMax (boundingBox vol)) \<and>
      vz (bbMin (boundingBox vol)) < vz (worldTranslation cam) \<and>
      vz (worldTranslation cam) < vz (bbMax (boundingBox vol))) \<and>
   (vx (worldTranslation cam) = vx (bbMin (boundingBox vol)) \<or>
    vx (worldTranslation cam) = vx (bbMax (boundingBox vol)) \<or>
    vy (worldTranslation cam) = vy (bbMin (boundingBox vol)) \<or>
    vy (worldTranslation cam) = vy (bbMax (boundingBox vol)) \<or>
    vz (worldTranslation cam) = vz (bbMin (boundingBox vol)) \<or>
    vz (worldTranslation cam) = vz (bbMax (boundingBox vol))
    \<longrightarrow> \<not> isCameraInsideBoundingBox cam vol)"
proof (intro conjI impI)
  show "isCameraInsideBoundingBox cam vol \<longleftrightarrow>
      vx (bbMin (boundingBox vol)) < vx (worldTranslation cam) \<and>
      vx (worldTranslation cam) < vx (bbMax (boundingBox vol)) \<and>
      vy (bbMin (boundingBox vol)) < vy (worldTranslation cam) \<and>
      vy (worldTranslation cam) < vy (bbMax (boundingBox vol)) \<and>
      vz (bbMin (boundingBox vol)) < vz (worldTranslation cam) \<and>
      vz (worldTranslation cam) < vz (bbMax (boundingBox vol))"
    by (rule inside_iff)
next
  assume "vx (worldTranslation cam) = vx (bbMin (boundingBox vol)) \<or>
    vx (worldTranslation cam) = vx (bbMax (boundingBox vol)) \<or>
    vy (worldTranslation cam) = vy (bbMin (boundingBox vol)) \<or>
    vy (worldTranslation cam) = vy (bbMax (boundingBox vol)) \<or>
    vz (worldTranslation cam) = vz (bbMin (boundingBox vol)) \<or>
    vz (worldTranslation cam) = vz (bbMax (boundingBox vol))"
  then show "\<not> isCameraInsideBoundingBox cam vol"
    unfolding inside_iff by auto
qed

theorem C2_contains_strict_witness:
  "isCameraInsideBoundingBox (camAt (pt 1 1 1)) volA \<and>
   \<not> isCameraInsideBoundingBox (camAt (pt 0 1 1)) volA \<and>
   \<not> isCameraInsideBoundingBox (camAt (pt 1 4 1)) volA"
  using C2_contains_strict [of "camAt (pt 1 1 1)" volA]
        C2_contains_strict [of "camAt (pt 0 1 1)" volA]
        C2_contains_strict [of "camAt (pt 1 4 1)" volA]
  by (simp add: camAt_def pt_def volA_def cube_def)

text \<open>
  C3. The scan over the registered volumes, started with no active volume, returns the
  last volume in registration order whose box contains the camera: a containing volume
  with no containing volume after it is the result, whatever precedes it; the result is
  none when no volume contains the camera, and always for an empty list.
\<close>

theorem C3_last_containing_wins:
  "scanVolumes cam vols None = lastContaining cam vols \<and>
   (\<forall>pre v post.
      vols = pre @ v # post \<and> isCameraInsideBoundingBox cam v \<and>
      (\<forall>w \<in> set post. \<not> isCameraInsideBoundingBox cam w)
      \<longrightarrow> scanVolumes cam vols None = Some v) \<and>
   ((\<forall>w \<in> set vols. \<not> isCameraInsideBoundingBox cam w)
      \<longrightarrow> scanVolumes cam vols None = None) \<and>
   scanVolumes cam [] None = None"
proof (intro conjI allI impI)
  show "scanVolumes cam vols None = lastContaining cam vols"
    by (rule scanVolumes_last)
next
  fix pre v post
  assume h: "vols = pre @ v # post \<and> isCameraInsideBoundingBox cam v \<and>
      (\<forall>w \<in> set post. \<not> isCameraInsideBoundingBox cam w)"
  then have "filter (isCameraInsideBoundingBox cam) post = []"
    by (simp add: filter_empty_conv)
  with h show "scanVolumes cam vols None = Some v"
    by (simp add: scanVolumes_acc)
next
  assume "\<forall>w \<in> set vols. \<not> isCameraInsideBoundingBox cam w"
  then have "filter (isCameraInsideBoundingBox cam) vols = []"
    by (simp add: filter_empty_conv)
  then show "scanVolumes cam vols None = None"
    by (simp add: scanVolumes_acc)
next
  show "scanVolumes cam [] None = None"
    by simp
qed

theorem C3_last_containing_wins_witness:
  "scanVolumes (camAt (pt 3 3 3)) [volA, volB, volC] None = Some volB \<and>
   scanVolumes (camAt (pt 3 3 3)) [volB, volA, volC] None = Some volA \<and>
   scanVolumes (camAt (pt 8 8 8)) [volA, volB, volC] None = None"
proof -
  let ?cam = "camAt (pt 3 3 3)"
  have inA: "isCameraInsideBoundingBox ?cam volA"
    and inB: "isCameraInsideBoundingBox ?cam volB"
    and outC: "\<not> isCameraInsideBoundingBox ?cam volC"
    by (simp_all add: inside_iff camAt_def pt_def volA_def volB_def volC_def cube_def)
  have out: "\<forall>w \<in> set [volA, volB, volC]. \<not> isCameraInsideBoundingBox (camAt (pt 8 8 8)) w"
    by (simp add: inside_iff camAt_def pt_def volA_def volB_def volC_def cube_def)
  have 1: "scanVolumes ?cam [volA, volB, volC] None = Some volB"
    using C3_last_containing_wins [of ?cam "[volA, volB, volC]"] inB outC
    by (auto dest!: spec [where x = "[volA]"])
  have 2: "scanVolumes ?cam [volB, volA, volC] None = Some volA"
    using C3_last_containing_wins [of ?cam "[volB, volA, volC]"] inA outC
    by (auto dest!: spec [where x = "[volB]"])
  have 3: "scanVolumes (camAt (pt 8 8 8)) [volA, volB, volC] None = None"
    using C3_last_containing_wins [of "camAt (pt 8 8 8)" "[volA, volB, volC]"] out
    by blast
  from 1 2 3 show ?thesis by simp
qed

section \<open>The blend step\<close>

lemma specStep_unfold:
  "specStep t c = (if \<bar>t - c\<bar> > 0.1 then c + (t - c) * 0.1 else c)"
  by (simp add: specStep_def ALPHA_def EPSILON_def Let_def)

lemma smooth_numeric:
  assumes "exposureTarget s = Num et" and "saturationTarget s = Num st"
  shows "smoothCameraParameterUpdate s =
           Inr (s\<lparr>camera := (camera s)\<lparr>
                  tonemapperExposure := specStep et (tonemapperExposure (camera s)),
                  colorCorrectionSaturation := specStep st (colorCorrectionSaturation (camera s))\<rparr>\<rparr>)"
  using assms
  by (simp add: smoothCameraParameterUpdate_def specStep_unfold Let_def)

lemma smooth_raises:
  assumes "exposureTarget s = PyNone \<or> saturationTarget s = PyNone"
  shows "smoothCameraParameterUpdate s = Inl (TypeError, s)"
  using assms
  by (auto simp: smoothCameraParameterUpdate_def Let_def split: pyval.splits)

lemma objectAfter_smooth:
  "\<exists>cam. objectAfter (smoothCameraParameterUpdate s) = s\<lparr>camera := cam\<rparr> \<and>
         worldTranslation cam = worldTranslation (camera s)"
proof (cases "exposureTarget s")
  case PyNone
  then show ?thesis by (intro exI [of _ "camera s"]) (simp add: smooth_raises)
next
  case (Num et)
  show ?thesis
  proof (cases "saturationTarget s")
    case PyNone
    then show ?thesis by (intro exI [of _ "camera s"]) (simp add: smooth_raises)
  next
    case (Num st)
    with \<open>exposureTarget s = Num et\<close> show ?thesis
      by (intro exI [of _ "(camera s)\<lparr>
                  tonemapperExposure := specStep et (tonemapperExposure (camera s)),
                  colorCorrectionSaturation := specStep st (colorCorrectionSaturation (camera s))\<rparr>"])
         (simp add: smooth_numeric)
  qed
qed

lemma blendSteps_numeric:
  assumes "exposureTarget s = Num et" and "saturationTarget s = Num st"
  shows "blendSteps n s =
           Inr (s\<lparr>camera := (camera s)\<lparr>
                  tonemapperExposure := (specStep et ^^ n) (tonemapperExposure (camera s)),
                  colorCorrectionSaturation := (specStep st ^^ n) (colorCorrectionSaturation (camera s))\<rparr>\<rparr>)"
  using assms
proof (induction n arbitrary: s)
  case 0
  show ?case by simp
next
  case (Suc n)
  let ?s1 = "s\<lparr>camera := (camera s)\<lparr>
                  tonemapperExposure := specStep et (tonemapperExposure (camera s)),
                  colorCorrectionSaturation := specStep st (colorCorrectionSaturation (camera s))\<rparr>\<rparr>"
  have step: "smoothCameraParameterUpdate s = Inr ?s1"
    using Suc.prems by (rule smooth_numeric)
  have "blendSteps n ?s1 = Inr (?s1\<lparr>camera := (camera ?s1)\<lparr>
                  tonemapperExposure := (specStep et ^^ n) (tonemapperExposure (camera ?s1)),
                  colorCorrectionSaturation := (specStep st ^^ n) (colorCorrectionSaturation (camera ?s1))\<rparr>\<rparr>)"
    using Suc.prems by (intro Suc.IH) simp_all
  then show ?case
    by (simp add: step funpow_swap1)
qed

lemma specStep_fixed: "\<bar>t - c\<bar> \<le> 0.1 \<Longrightarrow> (specStep t ^^ n) c = c"
  by (induction n) (simp_all add: specStep_unfold)

lemma specStep_closed:
  "n \<le> 44 \<Longrightarrow> (specStep 10 ^^ n) 0 = 10 - 10 * (9 / 10) ^ n"
proof (induction n)
  case 0
  show ?case by simp
next
  case (Suc n)
  then have n: "n \<le> 43" and IH: "(specStep 10 ^^ n) 0 = 10 - 10 * (9 / 10) ^ n"
    by simp_all
  have "(9 / 10 :: real) ^ 43 \<le> (9 / 10) ^ n"
    using n by (intro power_decreasing) simp_all
  moreover have "(1 / 100 :: real) < (9 / 10) ^ 43"
    by (simp add: power_divide)
  ultimately have big: "(1 / 100 :: real) < (9 / 10) ^ n"
    by linarith
  have "(specStep 10 ^^ Suc n) 0 = specStep 10 (10 - 10 * (9 / 10) ^ n)"
    by (simp add: IH)
  also have "\<dots> = (10 - 10 * (9 / 10) ^ n) + (10 - (10 - 10 * (9 / 10) ^ n)) * 0.1"
    using big by (simp add: specStep_unfold)
  also have "\<dots> = 10 - 10 * (9 / 10) ^ Suc n"
    by (simp add: algebra_simps)
  finally show ?case .
qed

text \<open>
  C1. With both targets numbers, one blend step returns and moves each of the two
  parameters by the rule on its own: with \<open>diff = abs(target - current)\<close>, the new
  value is \<open>current + (target - current) * 0.1\<close> if \<open>diff > 0.1\<close> and the old
  value otherwise (the specification's step); the targets stay. Once
  \<open>abs(target - current) \<le> 0.1\<close> for a parameter, any number of repeated steps
  returns and leaves that parameter's current value unchanged.
\<close>

theorem C1_blend_step:
  assumes "exposureTarget s = Num et" and "saturationTarget s = Num st"
  shows "(\<exists>s'. smoothCameraParameterUpdate s = Inr s' \<and>
            tonemapperExposure (camera s') =
              (if \<bar>et - tonemapperExposure (camera s)\<bar> > 0.1
               then tonemapperExposure (camera s) + (et - tonemapperExposure (camera s)) * 0.1
               else tonemapperExposure (camera s)) \<and>
            colorCorrectionSaturation (camera s') =
              (if \<bar>st - colorCorrectionSaturation (camera s)\<bar> > 0.1
               then colorCorrectionSaturation (camera s) +
                      (st - colorCorrectionSaturation (camera s)) * 0.1
               else colorCorrectionSaturation (camera s)) \<and>
            tonemapperExposure (camera s') = specStep et (tonemapperExposure (camera s)) \<and>
            colorCorrectionSaturation (camera s') =
              specStep st (colorCorrectionSaturation (camera s)) \<and>
            exposureTarget s' = Num et \<and> saturationTarget s' = Num st) \<and>
         (\<bar>et - tonemapperExposure (camera s)\<bar> \<le> 0.1 \<longrightarrow>
            (\<forall>n. \<exists>s'. blendSteps n s = Inr s' \<and>
               tonemapperExposure (camera s') = tonemapperExposure (camera s))) \<and>
         (\<bar>st - colorCorrectionSaturation (camera s)\<bar> \<le> 0.1 \<longrightarrow>
            (\<forall>n. \<exists>s'. blendSteps n s = Inr s' \<and>
               colorCorrectionSaturation (camera s') = colorCorrectionSaturation (camera s)))"
proof (intro conjI impI allI)
  show "\<exists>s'. smoothCameraParameterUpdate s = Inr s' \<and>
            tonemapperExposure (camera s') =
              (if \<bar>et - tonemapperExposure (camera s)\<bar> > 0.1
               then tonemapperExposure (camera s) + (et - tonemapperExposure (camera s)) * 0.1
               else tonemapperExposure (camera s)) \<and>
            colorCorrectionSaturation (camera s') =
              (if \<bar>st - colorCorrectionSaturation (camera s)\<bar> > 0.1
               then colorCorrectionSaturation (camera s) +
                      (st - colorCorrectionSaturation (camera s)) * 0.1
               else colorCorrectionSaturation (camera s)) \<and>
            tonemapperExposure (camera s') = specStep et (tonemapperExposure (camera s)) \<and>
            colorCorrectionSaturation (camera s') =
              specStep st (colorCorrectionSaturation (camera s)) \<and>
            exposureTarget s' = Num et \<and> saturationTarget s' = Num st"
    using assms by (simp add: smooth_numeric [OF assms] specStep_unfold)
next
  fix n
  assume "\<bar>et - tonemapperExposure (camera s)\<bar> \<le> 0.1"
  then show "\<exists>s'. blendSteps n s = Inr s' \<and>
               tonemapperExposure (camera s') = tonemapperExposure (camera s)"
    by (simp add: blendSteps_numeric [OF assms] specStep_fixed)
next
  fix n
  assume "\<bar>st - colorCorrectionSaturation (camera s)\<bar> \<le> 0.1"
  then show "\<exists>s'. blendSteps n s = Inr s' \<and>
               colorCorrectionSaturation (camera s') = colorCorrectionSaturation (camera s)"
    by (simp add: blendSteps_numeric [OF assms] specStep_fixed)
qed

theorem C1_blend_step_witness:
  "(\<exists>s'. smoothCameraParameterUpdate blendScene = Inr s' \<and>
          tonemapperExposure (camera s') = 1.1 \<and>
          colorCorrectionSaturation (camera s') = 1) \<and>
   (\<exists>s'. blendSteps 7 blendScene = Inr s' \<and> colorCorrectionSaturation (camera s') = 1)"
proof -
  have e: "exposureTarget blendScene = Num 2"
    and t: "saturationTarget blendScene = Num 1.05"
    and c: "tonemapperExposure (camera blendScene) = 1"
           "colorCorrectionSaturation (camera blendScene) = 1"
    by (simp_all add: blendScene_def init_def camAt_def)
  from C1_blend_step [OF e t] show ?thesis
    by (auto simp add: c)
qed


subsection \<open>The ramp from 0 to 10\<close>

lemma exposureAfter_numeric:
  assumes "exposureTarget s = Num et" and "saturationTarget s = Num st"
  shows "exposureAfter n s = Some ((specStep et ^^ n) (tonemapperExposure (camera s)))"
  by (simp add: exposureAfter_def blendSteps_numeric [OF assms])

lemma specStep_gap:
  assumes "\<bar>t - c\<bar> > 0.1"
  shows "\<bar>t - specStep t c\<bar> < \<bar>t - c\<bar>"
proof -
  have "specStep t c = c + (t - c) * 0.1"
    using assms by (simp add: specStep_unfold)
  then have "t - specStep t c = (t - c) * 0.9"
    by argo
  then have "\<bar>t - specStep t c\<bar> = \<bar>(t - c) * 0.9\<bar>"
    by (simp only:)
  also have "\<dots> = \<bar>t - c\<bar> * 0.9"
    by (subst abs_mult) simp
  finally show ?thesis using assms by simp
qed

lemma specStep_below:
  assumes "c < t"
  shows "c \<le> specStep t c \<and> specStep t c < t"
proof (cases "\<bar>t - c\<bar> > 0.1")
  case True
  then have "specStep t c = c + (t - c) * 0.1"
    by (simp add: specStep_unfold)
  with assms show ?thesis by argo
next
  case False
  then have "specStep t c = c"
    by (simp add: specStep_unfold)
  with assms show ?thesis by simp
qed

lemma specStep_iter_below: "c < t \<Longrightarrow> (specStep t ^^ n) c < t"
  by (induction n) (simp_all add: specStep_below)

lemma specStep_iter_const:
  assumes "\<bar>t - (specStep t ^^ n) c\<bar> \<le> 0.1" and "n \<le> m"
  shows "(specStep t ^^ m) c = (specStep t ^^ n) c"
proof -
  from \<open>n \<le> m\<close> obtain k where m: "m = k + n"
    by (metis le_add_diff_inverse2)
  show ?thesis
    unfolding m by (simp add: funpow_add specStep_fixed [OF assms(1)])
qed

lemma ramp_gap_large:
  assumes "n < 44"
  shows "\<bar>10 - (specStep 10 ^^ n) 0\<bar> > 0.1"
proof -
  have n: "n \<le> 43" using assms by simp
  have "(9 / 10 :: real) ^ 43 \<le> (9 / 10) ^ n"
    using n by (intro power_decreasing) simp_all
  moreover have "(1 / 100 :: real) < (9 / 10) ^ 43"
    by (simp add: power_divide)
  ultimately have "(1 / 100 :: real) < (9 / 10) ^ n"
    by linarith
  then have "(1 / 10 :: real) < \<bar>10 - (10 - 10 * (9 / 10) ^ n)\<bar>"
    by simp
  moreover have "(specStep 10 ^^ n) 0 = 10 - 10 * (9 / 10) ^ n"
    using n by (intro specStep_closed) simp
  ultimately show ?thesis
    by (simp only:)
qed

lemma ramp_gap_small: "\<bar>10 - (specStep 10 ^^ 44) 0\<bar> \<le> 0.1"
proof -
  have e: "(specStep 10 ^^ 44) 0 = 10 - 10 * (9 / 10) ^ 44"
    by (rule specStep_closed) simp
  have "\<bar>10 - (10 - 10 * (9 / 10) ^ 44)\<bar> \<le> (0.1 :: real)"
    by (simp add: power_divide)
  then show ?thesis
    by (simp only: e)
qed

lemma ramp_first:
  "(specStep 10 ^^ 1) 0 = 1" "(specStep 10 ^^ 2) 0 = 1.9" "(specStep 10 ^^ 3) 0 = 2.71"
proof -
  have e: "(specStep 10 ^^ 1) 0 = 10 - 10 * (9 / 10) ^ 1"
      "(specStep 10 ^^ 2) 0 = 10 - 10 * (9 / 10) ^ 2"
      "(specStep 10 ^^ 3) 0 = 10 - 10 * (9 / 10) ^ 3"
    by (rule specStep_closed, simp)+
  have v: "10 - 10 * (9 / 10) ^ 1 = (1::real)"
      "10 - 10 * (9 / 10) ^ 2 = (1.9::real)"
      "10 - 10 * (9 / 10) ^ 3 = (2.71::real)"
    by (simp_all add: power_divide)
  show "(specStep 10 ^^ 1) 0 = 1"
    by (simp only: e v)
  show "(specStep 10 ^^ 2) 0 = 1.9"
    by (simp only: e v)
  show "(specStep 10 ^^ 3) 0 = 2.71"
    by (simp only: e v)
qed


text \<open>
  C8. From exposure 0 with target 10, every number of blend steps returns, the exposure
  runs through 0, 1, 1.9, 2.71, ..., the distance to the target strictly decreases
  on every step on which it is above 0.1, the exposure never decreases and stays
  below 10, the distance is above 0.1 for the first 44 values and at most 0.1 at the
  44th step, and from any step at which the distance is at most 0.1 the exposure stays
  constant.
\<close>

theorem C8_convergence:
  assumes "tonemapperExposure (camera s) = 0"
    and "exposureTarget s = Num 10"
    and "saturationTarget s = Num st"
  shows "\<exists>c. (\<forall>n. exposureAfter n s = Some (c n)) \<and>
           c 0 = 0 \<and> c 1 = 1 \<and> c 2 = 1.9 \<and> c 3 = 2.71 \<and>
           (\<forall>n. \<bar>10 - c n\<bar> > 0.1 \<longrightarrow> \<bar>10 - c (Suc n)\<bar> < \<bar>10 - c n\<bar>) \<and>
           (\<forall>n. c n \<le> c (Suc n) \<and> c n < 10) \<and>
           (\<forall>n. n < 44 \<longrightarrow> \<bar>10 - c n\<bar> > 0.1) \<and>
           \<bar>10 - c 44\<bar> \<le> 0.1 \<and>
           (\<forall>n. \<bar>10 - c n\<bar> \<le> 0.1 \<longrightarrow> (\<forall>m. n \<le> m \<longrightarrow> c m = c n))"
proof (intro exI [of _ "\<lambda>n. (specStep 10 ^^ n) 0"] conjI allI impI)
  fix n
  show "exposureAfter n s = Some ((specStep 10 ^^ n) 0)"
    using exposureAfter_numeric [OF assms(2,3), of n] assms(1) by simp
next
  show "(specStep 10 ^^ 0) 0 = (0::real)" by simp
next
  show "(specStep 10 ^^ 1) 0 = (1::real)" by (rule ramp_first)
next
  show "(specStep 10 ^^ 2) 0 = (1.9::real)" by (rule ramp_first)
next
  show "(specStep 10 ^^ 3) 0 = (2.71::real)" by (rule ramp_first)
next
  fix n
  assume "\<bar>10 - (specStep 10 ^^ n) 0\<bar> > (0.1::real)"
  then show "\<bar>10 - (specStep 10 ^^ Suc n) 0\<bar> < \<bar>10 - (specStep 10 ^^ n) 0\<bar>"
    by (simp add: specStep_gap)
next
  fix n
  have "(specStep 10 ^^ n) 0 < (10::real)"
    by (rule specStep_iter_below) simp
  then show "(specStep 10 ^^ n) 0 \<le> (specStep 10 ^^ Suc n) 0"
    by (simp add: specStep_below)
next
  fix n
  show "(specStep 10 ^^ n) 0 < (10::real)"
    by (rule specStep_iter_below) simp
next
  fix n :: nat
  assume "n < 44"
  then show "\<bar>10 - (specStep 10 ^^ n) 0\<bar> > (0.1::real)"
    by (rule ramp_gap_large)
next
  show "\<bar>10 - (specStep 10 ^^ 44) 0\<bar> \<le> (0.1::real)"
    by (rule ramp_gap_small)
next
  fix n m :: nat
  assume "\<bar>10 - (specStep 10 ^^ n) 0\<bar> \<le> (0.1::real)" and "n \<le> m"
  then show "(specStep 10 ^^ m) 0 = (specStep 10 ^^ n) (0::real)"
    by (rule specStep_iter_const)
qed

theorem C8_convergence_witness:
  "exposureAfter 3 rampScene = Some 2.71 \<and>
   exposureAfter 100 rampScene = exposureAfter 44 rampScene"
proof -
  have h: "tonemapperExposure (camera rampScene) = 0"
      "exposureTarget rampScene = Num 10"
      "saturationTarget rampScene = Num 1"
    by (simp_all add: rampScene_def init_def)
  from C8_convergence [OF h] obtain c where
      a: "\<forall>n. exposureAfter n rampScene = Some (c n)"
      and c3: "c 3 = 2.71"
      and small: "\<bar>10 - c 44\<bar> \<le> 0.1"
      and const: "\<forall>n. \<bar>10 - c n\<bar> \<le> 0.1 \<longrightarrow> (\<forall>m. n \<le> m \<longrightarrow> c m = c n)"
    by blast
  have "c 100 = c 44"
    by (rule const [rule_format, OF small]) simp
  moreover from a have "exposureAfter 3 rampScene = Some (c 3)"
      "exposureAfter 100 rampScene = Some (c 100)"
      "exposureAfter 44 rampScene = Some (c 44)"
    by blast+
  ultimately show ?thesis
    by (simp only: c3)
qed

section \<open>The frame callback\<close>

text \<open>
  C7. On a frame with the controller inactive, \<open>loop\<close> is the blend step alone: the
  volumes are not evaluated, so both targets, the stored last active volume and the
  printed lines stay as they were, while the camera values still advance by the blend
  rule toward the unchanged targets.
\<close>

theorem C7_inactive_tick:
  assumes "\<not> isActive s"
  shows "loop s = smoothCameraParameterUpdate s \<and>
         exposureTarget (objectAfter (loop s)) = exposureTarget s \<and>
         saturationTarget (objectAfter (loop s)) = saturationTarget s \<and>
         lastActiveProcessingVolume (objectAfter (loop s)) = lastActiveProcessingVolume s \<and>
         stdout (objectAfter (loop s)) = stdout s \<and>
         isActive (objectAfter (loop s)) = isActive s \<and>
         (\<forall>et st. exposureTarget s = Num et \<and> saturationTarget s = Num st \<longrightarrow>
            (\<exists>s'. loop s = Inr s' \<and>
               tonemapperExposure (camera s') = specStep et (tonemapperExposure (camera s)) \<and>
               colorCorrectionSaturation (camera s') =
                 specStep st (colorCorrectionSaturation (camera s))))"
proof -
  have l: "loop s = smoothCameraParameterUpdate s"
    using assms by (simp add: loop_def)
  obtain cam where o: "objectAfter (smoothCameraParameterUpdate s) = s\<lparr>camera := cam\<rparr>"
    using objectAfter_smooth [of s] by blast
  show ?thesis
    by (simp add: l o) (simp add: smooth_numeric)
qed

theorem C7_inactive_tick_witness:
  "(\<exists>s'. loop (blendScene\<lparr>isActive := False\<rparr>) = Inr s' \<and>
          tonemapperExposure (camera s') = 1.1 \<and>
          lastActiveProcessingVolume s' = None \<and>
          exposureTarget s' = Num 2 \<and>
          stdout s' = []) \<and>
   scanVolumes (camera blendScene) (postProcessingVolumes blendScene) None = Some volA"
proof -
  let ?s = "blendScene\<lparr>isActive := False\<rparr>"
  have a: "\<not> isActive ?s" by simp
  have f: "exposureTarget ?s = Num 2" "saturationTarget ?s = Num 1.05"
      "tonemapperExposure (camera ?s) = 1" "lastActiveProcessingVolume ?s = None"
      "stdout ?s = []"
    by (simp_all add: blendScene_def init_def camAt_def)
  have sc: "scanVolumes (camera blendScene) (postProcessingVolumes blendScene) None = Some volA"
    by (simp add: blendScene_def init_def camAt_def inside_iff volA_def cube_def pt_def)
  have sp: "specStep 2 1 = 1.1"
    by (simp add: specStep_unfold)
  note C7 = C7_inactive_tick [OF a]
  from C7 have "exposureTarget ?s = Num 2 \<and> saturationTarget ?s = Num 1.05 \<longrightarrow>
      (\<exists>s'. loop ?s = Inr s' \<and>
         tonemapperExposure (camera s') = specStep 2 (tonemapperExposure (camera ?s)) \<and>
         colorCorrectionSaturation (camera s') =
           specStep 1.05 (colorCorrectionSaturation (camera ?s)))"
    by (elim conjE) (erule allE [where x = 2], erule allE [where x = "1.05"])
  with f obtain s' where r: "loop ?s = Inr s'"
      and e: "tonemapperExposure (camera s') = specStep 2 1"
    by auto
  from r have "objectAfter (loop ?s) = s'" by simp
  with C7 f have "lastActiveProcessingVolume s' = None" "exposureTarget s' = Num 2"
      "stdout s' = []"
    by simp_all
  with r e sp sc show ?thesis by simp
qed

subsection \<open>What one call of the callback changes\<close>

lemma smooth_keeps:
  "exposureTarget (objectAfter (smoothCameraParameterUpdate s)) = exposureTarget s"
  "saturationTarget (objectAfter (smoothCameraParameterUpdate s)) = saturationTarget s"
  "lastActiveProcessingVolume (objectAfter (smoothCameraParameterUpdate s)) =
     lastActiveProcessingVolume s"
  "stdout (objectAfter (smoothCameraParameterUpdate s)) = stdout s"
  "isActive (objectAfter (smoothCameraParameterUpdate s)) = isActive s"
  "postProcessingVolumes (objectAfter (smoothCameraParameterUpdate s)) = postProcessingVolumes s"
  "postProcessingEffectMapping (objectAfter (smoothCameraParameterUpdate s)) =
     postProcessingEffectMapping s"
  "originalCameraParameters (objectAfter (smoothCameraParameterUpdate s)) =
     originalCameraParameters s"
  "worldTranslation (camera (objectAfter (smoothCameraParameterUpdate s))) =
     worldTranslation (camera s)"
proof -
  obtain cam where "objectAfter (smoothCameraParameterUpdate s) = s\<lparr>camera := cam\<rparr>"
      and "worldTranslation cam = worldTranslation (camera s)"
    using objectAfter_smooth [of s] by blast
  then show
    "exposureTarget (objectAfter (smoothCameraParameterUpdate s)) = exposureTarget s"
    "saturationTarget (objectAfter (smoothCameraParameterUpdate s)) = saturationTarget s"
    "lastActiveProcessingVolume (objectAfter (smoothCameraParameterUpdate s)) =
       lastActiveProcessingVolume s"
    "stdout (objectAfter (smoothCameraParameterUpdate s)) = stdout s"
    "isActive (objectAfter (smoothCameraParameterUpdate s)) = isActive s"
    "postProcessingVolumes (objectAfter (smoothCameraParameterUpdate s)) = postProcessingVolumes s"
    "postProcessingEffectMapping (objectAfter (smoothCameraParameterUpdate s)) =
       postProcessingEffectMapping s"
    "originalCameraParameters (objectAfter (smoothCameraParameterUpdate s)) =
       originalCameraParameters s"
    "worldTranslation (camera (objectAfter (smoothCameraParameterUpdate s))) =
       worldTranslation (camera s)"
    by simp_all
qed

lemma smooth_returns:
  assumes "exposureTarget s = Num et" and "saturationTarget s = Num st"
  shows "\<exists>s'. smoothCameraParameterUpdate s = Inr s'"
  by (simp add: smooth_numeric [OF assms])

lemma loop_enter_unfold:
  assumes "isActive s"
    and "scanVolumes (camera s) (postProcessingVolumes s) None = Some v"
    and "lastActiveProcessingVolume s \<noteq> Some v"
  shows "loop s = smoothCameraParameterUpdate
           ((setPostProcessingEffects s v)\<lparr>lastActiveProcessingVolume := Some v\<rparr>)"
  using assms by (simp add: loop_def)

lemma loop_exit_unfold:
  assumes "isActive s"
    and "scanVolumes (camera s) (postProcessingVolumes s) None = None"
    and "lastActiveProcessingVolume s \<noteq> None"
  shows "loop s = smoothCameraParameterUpdate
           ((resetPostProcessingEffects s)\<lparr>lastActiveProcessingVolume := None\<rparr>)"
  using assms by (simp add: loop_def)

lemma loop_stay_unfold:
  assumes "isActive s"
    and "scanVolumes (camera s) (postProcessingVolumes s) None = lastActiveProcessingVolume s"
  shows "loop s = smoothCameraParameterUpdate s"
  using assms by (simp add: loop_def)

lemma set_effects_fields:
  "stdout (setPostProcessingEffects s v) =
     stdout s @ [''Camera entered post processing volume: '' @ nodeName v]"
  "isActive (setPostProcessingEffects s v) = isActive s"
  "postProcessingVolumes (setPostProcessingEffects s v) = postProcessingVolumes s"
  "postProcessingEffectMapping (setPostProcessingEffects s v) = postProcessingEffectMapping s"
  "originalCameraParameters (setPostProcessingEffects s v) = originalCameraParameters s"
  "camera (setPostProcessingEffects s v) = camera s"
  by (simp_all add: setPostProcessingEffects_def Let_def split: option.splits)

lemma set_effects_targets:
  "exposureTarget (setPostProcessingEffects s v) =
     (case postProcessingEffectMapping s (nodeName v) of
        None \<Rightarrow> exposureTarget s
      | Some effect \<Rightarrow> getValue effect ''camera:exposure'')"
  "saturationTarget (setPostProcessingEffects s v) =
     (case postProcessingEffectMapping s (nodeName v) of
        None \<Rightarrow> saturationTarget s
      | Some effect \<Rightarrow> getValue effect ''camera:saturation'')"
  by (simp_all add: setPostProcessingEffects_def Let_def split: option.splits)

lemma reset_fields:
  "stdout (resetPostProcessingEffects s) = stdout s @ [''Camera left post processing volume'']"
  "isActive (resetPostProcessingEffects s) = isActive s"
  "postProcessingVolumes (resetPostProcessingEffects s) = postProcessingVolumes s"
  "postProcessingEffectMapping (resetPostProcessingEffects s) = postProcessingEffectMapping s"
  "originalCameraParameters (resetPostProcessingEffects s) = originalCameraParameters s"
  "camera (resetPostProcessingEffects s) = camera s"
  "exposureTarget (resetPostProcessingEffects s) = Num (exposure (originalCameraParameters s))"
  "saturationTarget (resetPostProcessingEffects s) =
     Num (saturation (originalCameraParameters s))"
  by (simp_all add: resetPostProcessingEffects_def)

text \<open>
  C5. On an active frame on which no volume contains the camera while a volume is
  stored as last active (an exit), the callback returns and has reset both targets,
  exposure and saturation, to the original camera values, whatever the targets were
  before; it has printed the exit line and cleared the stored volume.
\<close>

theorem C5_exit_resets_all:
  assumes "isActive s"
    and "scanVolumes (camera s) (postProcessingVolumes s) None = None"
    and "lastActiveProcessingVolume s = Some v"
  shows "\<exists>s'. loop s = Inr s' \<and>
           exposureTarget s' = Num (exposure (originalCameraParameters s)) \<and>
           saturationTarget s' = Num (saturation (originalCameraParameters s)) \<and>
           lastActiveProcessingVolume s' = None \<and>
           stdout s' = stdout s @ [''Camera left post processing volume'']"
proof -
  let ?t = "(resetPostProcessingEffects s)\<lparr>lastActiveProcessingVolume := None\<rparr>"
  have l: "loop s = smoothCameraParameterUpdate ?t"
    using assms by (intro loop_exit_unfold) simp_all
  have "\<exists>s'. smoothCameraParameterUpdate ?t = Inr s'"
    by (rule smooth_returns) (simp_all add: reset_fields)
  then obtain s' where r: "smoothCameraParameterUpdate ?t = Inr s'" ..
  then have o: "objectAfter (smoothCameraParameterUpdate ?t) = s'" by simp
  have "exposureTarget s' = Num (exposure (originalCameraParameters s))"
      "saturationTarget s' = Num (saturation (originalCameraParameters s))"
      "lastActiveProcessingVolume s' = None"
      "stdout s' = stdout s @ [''Camera left post processing volume'']"
    using smooth_keeps [of ?t] unfolding o by (simp_all add: reset_fields)
  with l r show ?thesis by simp
qed

lemma loop_enter_fields:
  assumes "isActive s"
    and "scanVolumes (camera s) (postProcessingVolumes s) None = Some v"
    and "lastActiveProcessingVolume s \<noteq> Some v"
  shows "exposureTarget (objectAfter (loop s)) = exposureTarget (setPostProcessingEffects s v)"
    and "saturationTarget (objectAfter (loop s)) =
           saturationTarget (setPostProcessingEffects s v)"
    and "stdout (objectAfter (loop s)) =
           stdout s @ [''Camera entered post processing volume: '' @ nodeName v]"
    and "lastActiveProcessingVolume (objectAfter (loop s)) = Some v"
  by (simp_all add: loop_enter_unfold [OF assms] smooth_keeps set_effects_fields)

lemma loop_exit_fields:
  assumes "isActive s"
    and "scanVolumes (camera s) (postProcessingVolumes s) None = None"
    and "lastActiveProcessingVolume s \<noteq> None"
  shows "exposureTarget (objectAfter (loop s)) = Num (exposure (originalCameraParameters s))"
    and "saturationTarget (objectAfter (loop s)) =
           Num (saturation (originalCameraParameters s))"
    and "stdout (objectAfter (loop s)) = stdout s @ [''Camera left post processing volume'']"
    and "lastActiveProcessingVolume (objectAfter (loop s)) = None"
  by (simp_all add: loop_exit_unfold [OF assms] smooth_keeps reset_fields)

lemma loop_stay_fields:
  assumes "isActive s"
    and "scanVolumes (camera s) (postProcessingVolumes s) None = lastActiveProcessingVolume s"
  shows "exposureTarget (objectAfter (loop s)) = exposureTarget s"
    and "saturationTarget (objectAfter (loop s)) = saturationTarget s"
    and "stdout (objectAfter (loop s)) = stdout s"
    and "lastActiveProcessingVolume (objectAfter (loop s)) = lastActiveProcessingVolume s"
  by (simp_all add: loop_stay_unfold [OF assms] smooth_keeps)

text \<open>
  C4, as the code has it. On an active frame that enters a volume with a metadata set
  attached, both targets are assigned what the set returns for \<open>camera:exposure\<close> and
  \<open>camera:saturation\<close>: the stored number for a key the set holds, and \<open>None\<close> for a
  key it lacks. The prior target of a missing parameter is overwritten, not kept.
\<close>

theorem C4_entry_assigns_both:
  assumes "isActive s"
    and "scanVolumes (camera s) (postProcessingVolumes s) None = Some v"
    and "lastActiveProcessingVolume s \<noteq> Some v"
    and "postProcessingEffectMapping s (nodeName v) = Some effect"
  shows "exposureTarget (objectAfter (loop s)) = getValue effect ''camera:exposure'' \<and>
         saturationTarget (objectAfter (loop s)) = getValue effect ''camera:saturation'' \<and>
         (\<forall>x. effect ''camera:exposure'' = Some x \<longrightarrow>
            exposureTarget (objectAfter (loop s)) = Num x) \<and>
         (\<forall>x. effect ''camera:saturation'' = Some x \<longrightarrow>
            saturationTarget (objectAfter (loop s)) = Num x) \<and>
         (effect ''camera:exposure'' = None \<longrightarrow>
            exposureTarget (objectAfter (loop s)) = PyNone) \<and>
         (effect ''camera:saturation'' = None \<longrightarrow>
            saturationTarget (objectAfter (loop s)) = PyNone)"
proof -
  have e: "exposureTarget (objectAfter (loop s)) = getValue effect ''camera:exposure''"
    by (simp add: loop_enter_fields [OF assms(1-3)] set_effects_targets assms(4))
  have t: "saturationTarget (objectAfter (loop s)) = getValue effect ''camera:saturation''"
    by (simp add: loop_enter_fields [OF assms(1-3)] set_effects_targets assms(4))
  show ?thesis
    unfolding e t by (simp add: getValue_def)
qed

lemma scan_sceneAt:
  "scanVolumes (camera (sceneAt (pt 1 1 1))) (postProcessingVolumes (sceneAt p)) None
     = Some volA"
  "scanVolumes (camera (sceneAt (pt 3 3 3))) (postProcessingVolumes (sceneAt p)) None
     = Some volB"
  "scanVolumes (camera (sceneAt (pt 21 21 21))) (postProcessingVolumes (sceneAt p)) None
     = Some volD"
  "scanVolumes (camera (sceneAt (pt 31 31 31))) (postProcessingVolumes (sceneAt p)) None
     = Some volE"
  "scanVolumes (camera (sceneAt (pt 50 50 50))) (postProcessingVolumes (sceneAt p)) None
     = None"
  by (simp_all add: sceneAt_def init_def camAt_def inside_iff pt_def cube_def
        volA_def volB_def volC_def volD_def volE_def)

lemma sceneAt_fields:
  "isActive (sceneAt p)"
  "lastActiveProcessingVolume (sceneAt p) = None"
  "exposureTarget (sceneAt p) = Num 1"
  "saturationTarget (sceneAt p) = Num 1"
  "stdout (sceneAt p) = []"
  "postProcessingEffectMapping (sceneAt p) = sceneMapping"
  "originalCameraParameters (sceneAt p) = \<lparr> exposure = 1, saturation = 1 \<rparr>"
  by (simp_all add: sceneAt_def init_def camAt_def)

lemma sceneMapping_values:
  "sceneMapping (nodeName volA) = Some effectA"
  "sceneMapping (nodeName volB) = Some effectB"
  "sceneMapping (nodeName volD) = None"
  "sceneMapping (nodeName volE) = Some effectExposureOnly"
  by (simp_all add: sceneMapping_def volA_def volB_def volD_def volE_def)

theorem C4_entry_assigns_both_witness:
  "exposureTarget (objectAfter (loop (sceneAt (pt 1 1 1)))) = Num 2 \<and>
   saturationTarget (objectAfter (loop (sceneAt (pt 1 1 1)))) = Num 3 \<and>
   exposureTarget (objectAfter (loop (sceneAt (pt 31 31 31)))) = Num 2 \<and>
   saturationTarget (objectAfter (loop (sceneAt (pt 31 31 31)))) = PyNone"
proof -
  have a: "postProcessingEffectMapping (sceneAt (pt 1 1 1)) (nodeName volA) = Some effectA"
    by (simp add: sceneAt_fields sceneMapping_values)
  have b: "postProcessingEffectMapping (sceneAt (pt 31 31 31)) (nodeName volE)
             = Some effectExposureOnly"
    by (simp add: sceneAt_fields sceneMapping_values)
  have n: "lastActiveProcessingVolume (sceneAt (pt 1 1 1)) \<noteq> Some volA"
      "lastActiveProcessingVolume (sceneAt (pt 31 31 31)) \<noteq> Some volE"
    by (simp_all add: sceneAt_fields)
  from C4_entry_assigns_both [OF sceneAt_fields(1) scan_sceneAt(1) n(1) a]
       C4_entry_assigns_both [OF sceneAt_fields(1) scan_sceneAt(4) n(2) b]
  show ?thesis
    by (simp add: effectA_def effectExposureOnly_def getValue_def)
qed

text \<open>
  C4 as stated fails: entering \<open>volE\<close>, whose set holds the exposure key only, turns
  the saturation target from 1 into \<open>None\<close>.
\<close>

theorem C4_missing_key_counterexample:
  "isActive (sceneAt (pt 31 31 31)) \<and>
   lastActiveProcessingVolume (sceneAt (pt 31 31 31)) = None \<and>
   scanVolumes (camera (sceneAt (pt 31 31 31)))
     (postProcessingVolumes (sceneAt (pt 31 31 31))) None = Some volE \<and>
   postProcessingEffectMapping (sceneAt (pt 31 31 31)) (nodeName volE)
     = Some effectExposureOnly \<and>
   effectExposureOnly ''camera:saturation'' = None \<and>
   saturationTarget (sceneAt (pt 31 31 31)) = Num 1 \<and>
   saturationTarget (objectAfter (loop (sceneAt (pt 31 31 31)))) = PyNone \<and>
   saturationTarget (objectAfter (loop (sceneAt (pt 31 31 31))))
     \<noteq> saturationTarget (sceneAt (pt 31 31 31))"
proof -
  have n: "lastActiveProcessingVolume (sceneAt (pt 31 31 31)) \<noteq> Some volE"
    by (simp add: sceneAt_fields)
  have "saturationTarget (objectAfter (loop (sceneAt (pt 31 31 31)))) = PyNone"
    by (simp add: loop_enter_fields [OF sceneAt_fields(1) scan_sceneAt(4) n]
          set_effects_targets sceneAt_fields sceneMapping_values getValue_def
          effectExposureOnly_def)
  then show ?thesis
    by (simp add: sceneAt_fields scan_sceneAt sceneMapping_values effectExposureOnly_def)
qed

subsection \<open>Moving the camera\<close>

lemma loop_config:
  "isActive (objectAfter (loop s)) = isActive s"
  "postProcessingVolumes (objectAfter (loop s)) = postProcessingVolumes s"
  "postProcessingEffectMapping (objectAfter (loop s)) = postProcessingEffectMapping s"
  "originalCameraParameters (objectAfter (loop s)) = originalCameraParameters s"
  "worldTranslation (camera (objectAfter (loop s))) = worldTranslation (camera s)"
  by (simp_all add: loop_def smooth_keeps set_effects_fields reset_fields Let_def
        split: option.splits)

lemma moveCamera_fields:
  "worldTranslation (camera (moveCamera p s)) = p"
  "tonemapperExposure (camera (moveCamera p s)) = tonemapperExposure (camera s)"
  "colorCorrectionSaturation (camera (moveCamera p s)) = colorCorrectionSaturation (camera s)"
  "isActive (moveCamera p s) = isActive s"
  "postProcessingVolumes (moveCamera p s) = postProcessingVolumes s"
  "postProcessingEffectMapping (moveCamera p s) = postProcessingEffectMapping s"
  "originalCameraParameters (moveCamera p s) = originalCameraParameters s"
  "exposureTarget (moveCamera p s) = exposureTarget s"
  "saturationTarget (moveCamera p s) = saturationTarget s"
  "lastActiveProcessingVolume (moveCamera p s) = lastActiveProcessingVolume s"
  "stdout (moveCamera p s) = stdout s"
  by (simp_all add: moveCamera_def)

lemma inside_position:
  "worldTranslation c1 = worldTranslation c2 \<Longrightarrow>
     isCameraInsideBoundingBox c1 v = isCameraInsideBoundingBox c2 v"
  by (simp add: inside_iff)

lemma scan_position:
  "worldTranslation c1 = worldTranslation c2 \<Longrightarrow>
     scanVolumes c1 vols acc = scanVolumes c2 vols acc"
  by (induction vols arbitrary: acc) (simp_all add: inside_position [of c1 c2])

lemma sceneAt_camera: "worldTranslation (camera (sceneAt p)) = p"
  by (simp add: sceneAt_def init_def camAt_def)

lemma sceneAt_volumes: "postProcessingVolumes (sceneAt p) = postProcessingVolumes (sceneAt q)"
  by (simp add: sceneAt_def init_def)

theorem C5_exit_resets_all_witness:
  "saturationTarget (objectAfter (loop (sceneAt (pt 31 31 31)))) = PyNone \<and>
   (\<exists>s'. loop (moveCamera (pt 50 50 50) (objectAfter (loop (sceneAt (pt 31 31 31))))) = Inr s' \<and>
      exposureTarget s' = Num 1 \<and> saturationTarget s' = Num 1 \<and>
      lastActiveProcessingVolume s' = None)"
proof -
  let ?s1 = "objectAfter (loop (sceneAt (pt 31 31 31)))"
  let ?s2 = "moveCamera (pt 50 50 50) ?s1"
  have n: "lastActiveProcessingVolume (sceneAt (pt 31 31 31)) \<noteq> Some volE"
    by (simp add: sceneAt_fields)
  note enter = loop_enter_fields [OF sceneAt_fields(1) scan_sceneAt(4) n]
  have sat: "saturationTarget ?s1 = PyNone"
    by (simp add: enter set_effects_targets sceneAt_fields sceneMapping_values getValue_def
          effectExposureOnly_def)
  have a: "isActive ?s2"
    by (simp add: moveCamera_fields loop_config sceneAt_fields)
  have "scanVolumes (camera ?s2) (postProcessingVolumes ?s2) None =
          scanVolumes (camera (sceneAt (pt 50 50 50)))
            (postProcessingVolumes (sceneAt (pt 31 31 31))) None"
    by (simp add: moveCamera_fields loop_config scan_position [of "camera ?s2"] sceneAt_camera)
  then have sc: "scanVolumes (camera ?s2) (postProcessingVolumes ?s2) None = None"
    by (simp only: scan_sceneAt)
  have l: "lastActiveProcessingVolume ?s2 = Some volE"
    by (simp add: moveCamera_fields enter)
  have o: "originalCameraParameters ?s2 = \<lparr> exposure = 1, saturation = 1 \<rparr>"
    by (simp add: moveCamera_fields loop_config sceneAt_fields)
  from C5_exit_resets_all [OF a sc l] sat show ?thesis
    by (auto simp add: o)
qed

text \<open>
  C6. On an active frame that enters a volume whose name has no metadata set attached,
  setting the effects changes nothing but the printed lines: both targets keep their
  prior values, the one line announcing the entry is printed, the volume is stored as
  last active, and with numeric prior targets the callback returns without an error.
\<close>

theorem C6_missing_mapping_skips:
  assumes "isActive s"
    and "scanVolumes (camera s) (postProcessingVolumes s) None = Some v"
    and "lastActiveProcessingVolume s \<noteq> Some v"
    and "postProcessingEffectMapping s (nodeName v) = None"
  shows "setPostProcessingEffects s v =
           s\<lparr>stdout := stdout s @
               [''Camera entered post processing volume: '' @ nodeName v]\<rparr> \<and>
         exposureTarget (objectAfter (loop s)) = exposureTarget s \<and>
         saturationTarget (objectAfter (loop s)) = saturationTarget s \<and>
         stdout (objectAfter (loop s)) =
           stdout s @ [''Camera entered post processing volume: '' @ nodeName v] \<and>
         lastActiveProcessingVolume (objectAfter (loop s)) = Some v \<and>
         (\<forall>et st. exposureTarget s = Num et \<and> saturationTarget s = Num st \<longrightarrow>
            (\<exists>s'. loop s = Inr s'))"
proof (intro conjI allI impI)
  show "setPostProcessingEffects s v =
          s\<lparr>stdout := stdout s @ [''Camera entered post processing volume: '' @ nodeName v]\<rparr>"
    using assms(4) by (simp add: setPostProcessingEffects_def Let_def)
next
  show "exposureTarget (objectAfter (loop s)) = exposureTarget s"
    by (simp add: loop_enter_fields [OF assms(1-3)] set_effects_targets assms(4))
next
  show "saturationTarget (objectAfter (loop s)) = saturationTarget s"
    by (simp add: loop_enter_fields [OF assms(1-3)] set_effects_targets assms(4))
next
  show "stdout (objectAfter (loop s)) =
          stdout s @ [''Camera entered post processing volume: '' @ nodeName v]"
    by (rule loop_enter_fields [OF assms(1-3)])
next
  show "lastActiveProcessingVolume (objectAfter (loop s)) = Some v"
    by (rule loop_enter_fields [OF assms(1-3)])
next
  fix et st
  assume "exposureTarget s = Num et \<and> saturationTarget s = Num st"
  then have "\<exists>s'. smoothCameraParameterUpdate
      ((setPostProcessingEffects s v)\<lparr>lastActiveProcessingVolume := Some v\<rparr>) = Inr s'"
    by (intro smooth_returns [of _ et st]) (simp_all add: set_effects_targets assms(4))
  then show "\<exists>s'. loop s = Inr s'"
    by (simp add: loop_enter_unfold [OF assms(1-3)])
qed

theorem C6_missing_mapping_skips_witness:
  "(\<exists>s'. loop (sceneAt (pt 21 21 21)) = Inr s' \<and>
      exposureTarget s' = Num 1 \<and> saturationTarget s' = Num 1 \<and>
      lastActiveProcessingVolume s' = Some volD \<and>
      stdout s' = [''Camera entered post processing volume: D''])"
proof -
  let ?s = "sceneAt (pt 21 21 21)"
  have n: "lastActiveProcessingVolume ?s \<noteq> Some volD"
    by (simp add: sceneAt_fields)
  have m: "postProcessingEffectMapping ?s (nodeName volD) = None"
    by (simp add: sceneAt_fields sceneMapping_values)
  note C6 = C6_missing_mapping_skips [OF sceneAt_fields(1) scan_sceneAt(3) n m]
  from C6 have "exposureTarget ?s = Num 1 \<and> saturationTarget ?s = Num 1 \<longrightarrow>
      (\<exists>s'. loop ?s = Inr s')"
    by (elim conjE) (erule allE [where x = 1], erule allE [where x = 1])
  then obtain s' where r: "loop ?s = Inr s'"
    by (auto simp add: sceneAt_fields)
  then have o: "objectAfter (loop ?s) = s'" by simp
  from C6 have "exposureTarget s' = Num 1" "saturationTarget s' = Num 1"
      "lastActiveProcessingVolume s' = Some volD"
      "stdout s' = [''Camera entered post processing volume: D'']"
    unfolding o by (simp_all add: sceneAt_fields volD_def)
  with r show ?thesis by simp
qed

subsection \<open>Which frames reset the targets\<close>

lemma entered_not_left:
  "''Camera entered post processing volume: '' @ n \<noteq> ''Camera left post processing volume''"
  by simp

text \<open>
  C10. On an active frame the reset runs (its line is printed, and both targets become
  the original camera values) exactly when no volume contains the camera now and a
  volume was stored as last active. In particular, on a frame on which the stored
  volume is \<open>A\<close> and the camera is now in a different volume \<open>B\<close>, the callback
  prints the entry line of \<open>B\<close>, leaves the targets as \<open>setPostProcessingEffects\<close>
  for \<open>B\<close> sets them, stores \<open>B\<close>, and does not reset.
\<close>

theorem C10_reset_only_on_exit:
  assumes "isActive s"
  shows "(stdout (objectAfter (loop s)) = stdout s @ [''Camera left post processing volume'']
            \<longleftrightarrow>
          scanVolumes (camera s) (postProcessingVolumes s) None = None \<and>
          lastActiveProcessingVolume s \<noteq> None) \<and>
         (scanVolumes (camera s) (postProcessingVolumes s) None = None \<and>
          lastActiveProcessingVolume s \<noteq> None \<longrightarrow>
            exposureTarget (objectAfter (loop s)) =
              Num (exposure (originalCameraParameters s)) \<and>
            saturationTarget (objectAfter (loop s)) =
              Num (saturation (originalCameraParameters s))) \<and>
         (\<forall>A B. lastActiveProcessingVolume s = Some A \<and>
            scanVolumes (camera s) (postProcessingVolumes s) None = Some B \<and> A \<noteq> B \<longrightarrow>
              stdout (objectAfter (loop s)) =
                stdout s @ [''Camera entered post processing volume: '' @ nodeName B] \<and>
              exposureTarget (objectAfter (loop s)) =
                exposureTarget (setPostProcessingEffects s B) \<and>
              saturationTarget (objectAfter (loop s)) =
                saturationTarget (setPostProcessingEffects s B) \<and>
              lastActiveProcessingVolume (objectAfter (loop s)) = Some B)"
proof (intro conjI allI impI)
  show "stdout (objectAfter (loop s)) = stdout s @ [''Camera left post processing volume'']
            \<longleftrightarrow>
          scanVolumes (camera s) (postProcessingVolumes s) None = None \<and>
          lastActiveProcessingVolume s \<noteq> None"
  proof (cases "scanVolumes (camera s) (postProcessingVolumes s) None")
    case None
    show ?thesis
    proof (cases "lastActiveProcessingVolume s")
      case n: None
      with None have "stdout (objectAfter (loop s)) = stdout s"
        by (intro loop_stay_fields [OF assms]) simp
      with None n show ?thesis by simp
    next
      case (Some a)
      with None have "stdout (objectAfter (loop s)) =
          stdout s @ [''Camera left post processing volume'']"
        by (intro loop_exit_fields [OF assms]) simp_all
      with None Some show ?thesis by simp
    qed
  next
    case (Some v)
    show ?thesis
    proof (cases "lastActiveProcessingVolume s = Some v")
      case True
      with Some have "stdout (objectAfter (loop s)) = stdout s"
        by (intro loop_stay_fields [OF assms]) simp
      with Some show ?thesis by simp
    next
      case False
      with Some have "stdout (objectAfter (loop s)) =
          stdout s @ [''Camera entered post processing volume: '' @ nodeName v]"
        by (intro loop_enter_fields [OF assms]) simp_all
      with Some show ?thesis by simp
    qed
  qed
next
  assume h: "scanVolumes (camera s) (postProcessingVolumes s) None = None \<and>
          lastActiveProcessingVolume s \<noteq> None"
  then show "exposureTarget (objectAfter (loop s)) =
      Num (exposure (originalCameraParameters s))"
    by (intro loop_exit_fields [OF assms]) simp_all
  from h show "saturationTarget (objectAfter (loop s)) =
      Num (saturation (originalCameraParameters s))"
    by (intro loop_exit_fields [OF assms]) simp_all
next
  fix A B
  assume h: "lastActiveProcessingVolume s = Some A \<and>
            scanVolumes (camera s) (postProcessingVolumes s) None = Some B \<and> A \<noteq> B"
  then have sc: "scanVolumes (camera s) (postProcessingVolumes s) None = Some B"
    and n: "lastActiveProcessingVolume s \<noteq> Some B"
    by simp_all
  show "stdout (objectAfter (loop s)) =
          stdout s @ [''Camera entered post processing volume: '' @ nodeName B]"
    by (rule loop_enter_fields [OF assms sc n])
  show "exposureTarget (objectAfter (loop s)) = exposureTarget (setPostProcessingEffects s B)"
    by (rule loop_enter_fields [OF assms sc n])
  show "saturationTarget (objectAfter (loop s)) =
          saturationTarget (setPostProcessingEffects s B)"
    by (rule loop_enter_fields [OF assms sc n])
  show "lastActiveProcessingVolume (objectAfter (loop s)) = Some B"
    by (rule loop_enter_fields [OF assms sc n])
qed

theorem C10_reset_only_on_exit_witness:
  "stdout (objectAfter (loop (moveCamera (pt 3 3 3)
       (objectAfter (loop (sceneAt (pt 1 1 1)))))))
     = [''Camera entered post processing volume: A'',
        ''Camera entered post processing volume: B''] \<and>
   exposureTarget (objectAfter (loop (moveCamera (pt 3 3 3)
       (objectAfter (loop (sceneAt (pt 1 1 1))))))) = Num 6 \<and>
   saturationTarget (objectAfter (loop (moveCamera (pt 3 3 3)
       (objectAfter (loop (sceneAt (pt 1 1 1))))))) = Num 7 \<and>
   lastActiveProcessingVolume (objectAfter (loop (moveCamera (pt 3 3 3)
       (objectAfter (loop (sceneAt (pt 1 1 1))))))) = Some volB"
proof -
  let ?s1 = "objectAfter (loop (sceneAt (pt 1 1 1)))"
  let ?s2 = "moveCamera (pt 3 3 3) ?s1"
  have n: "lastActiveProcessingVolume (sceneAt (pt 1 1 1)) \<noteq> Some volA"
    by (simp add: sceneAt_fields)
  note enter = loop_enter_fields [OF sceneAt_fields(1) scan_sceneAt(1) n]
  have a: "isActive ?s2"
    by (simp add: moveCamera_fields loop_config sceneAt_fields)
  have v: "postProcessingVolumes ?s2 = postProcessingVolumes (sceneAt (pt 1 1 1))"
    by (simp add: moveCamera_fields loop_config)
  have "scanVolumes (camera ?s2) (postProcessingVolumes ?s2) None =
          scanVolumes (camera (sceneAt (pt 3 3 3))) (postProcessingVolumes ?s2) None"
    by (rule scan_position) (simp add: moveCamera_fields sceneAt_camera)
  then have sc: "scanVolumes (camera ?s2) (postProcessingVolumes ?s2) None = Some volB"
    by (simp only: v scan_sceneAt)
  have l: "lastActiveProcessingVolume ?s2 = Some volA"
    by (simp add: moveCamera_fields enter)
  have ne: "volA \<noteq> volB"
    by (simp add: volA_def volB_def)
  have out: "stdout ?s2 = [''Camera entered post processing volume: A'']"
    by (simp add: moveCamera_fields enter sceneAt_fields volA_def)
  have m: "postProcessingEffectMapping ?s2 (nodeName volB) = Some effectB"
    by (simp add: moveCamera_fields loop_config sceneAt_fields sceneMapping_values)
  from C10_reset_only_on_exit [OF a] have
    "lastActiveProcessingVolume ?s2 = Some volA \<and>
       scanVolumes (camera ?s2) (postProcessingVolumes ?s2) None = Some volB \<and> volA \<noteq> volB \<longrightarrow>
         stdout (objectAfter (loop ?s2)) =
           stdout ?s2 @ [''Camera entered post processing volume: '' @ nodeName volB] \<and>
         exposureTarget (objectAfter (loop ?s2)) =
           exposureTarget (setPostProcessingEffects ?s2 volB) \<and>
         saturationTarget (objectAfter (loop ?s2)) =
           saturationTarget (setPostProcessingEffects ?s2 volB) \<and>
         lastActiveProcessingVolume (objectAfter (loop ?s2)) = Some volB"
    by (elim conjE) (erule allE [where x = volA], erule allE [where x = volB])
  with l sc ne have
    "stdout (objectAfter (loop ?s2)) =
       stdout ?s2 @ [''Camera entered post processing volume: '' @ nodeName volB]"
    "exposureTarget (objectAfter (loop ?s2)) = exposureTarget (setPostProcessingEffects ?s2 volB)"
    "saturationTarget (objectAfter (loop ?s2)) =
       saturationTarget (setPostProcessingEffects ?s2 volB)"
    "lastActiveProcessingVolume (objectAfter (loop ?s2)) = Some volB"
    by blast+
  moreover have "exposureTarget (setPostProcessingEffects ?s2 volB) = Num 6"
      "saturationTarget (setPostProcessingEffects ?s2 volB) = Num 7"
    by (simp_all add: set_effects_targets m getValue_def effectB_def)
  moreover have "nodeName volB = ''B''"
    by (simp add: volB_def)
  ultimately show ?thesis
    by (simp add: out)
qed

section \<open>Runs over a camera path\<close>


















end
